theory Spec2Isabelle
  imports Complex_Main
begin

section \<open>The loan and salary calculator of \<^verbatim>\<open>student_loans.py\<close>\<close>

text \<open>
  The calculator's four core functions (\<^verbatim>\<open>check_loan_parameters\<close>,
  \<^verbatim>\<open>calculate_monthly_payment\<close>, \<^verbatim>\<open>calculate_time_to_repay\<close>,
  \<^verbatim>\<open>calculate_monthly_takehome\<close>) and the callback that combines take-home pay
  with the loan payment (\<^verbatim>\<open>call_calculate_monthly_takehome\<close>) are embedded as HOL
  functions.

  Numbers. The callbacks hand Python floats to the core. A float is modelled as an
  exact \<^typ>\<open>real\<close>: the arithmetic of the model is the arithmetic of the reals, so
  rounding, overflow (\<^verbatim>\<open>OverflowError\<close> of \<^verbatim>\<open>**\<close>), infinities and NaN of IEEE
  doubles are outside the model. Everything else Python does is a branch of the model:
  a returned message, a returned float, a returned complex number (Python's \<^verbatim>\<open>**\<close>
  leaves the reals for a negative base with a fractional exponent), and every
  exception the arithmetic and \<^verbatim>\<open>math.log\<close> raise.
\<close>

subsection \<open>Results and exceptions\<close>

datatype py_exception = ZeroDivisionError | ValueError | TypeError | UnboundLocalError

text \<open>
  What a call yields: the \<^verbatim>\<open>str\<close> message, a \<^verbatim>\<open>float\<close>, a \<^verbatim>\<open>complex\<close>, or an
  exception that leaves the call (no function of the file catches one).
\<close>

datatype result =
    Message string
  | Number real
  | ComplexNumber complex
  | Raised py_exception

subsection \<open>Python's arithmetic on floats\<close>

text \<open>
  \<^verbatim>\<open>x ** y\<close> on floats (CPython's \<^verbatim>\<open>float_pow\<close>): anything to the power 0 is 1; 0 to a
  negative power raises \<^verbatim>\<open>ZeroDivisionError\<close>; a negative base with an exponent that is
  not an integer gives the complex number \<open>|x|\<^sup>y (cos (\<pi> y) + i sin (\<pi> y))\<close>; a
  negative base with an integer exponent gives \<open>|x|\<^sup>y\<close>, negated when the exponent is
  odd.
\<close>

definition py_pow :: "real \<Rightarrow> real \<Rightarrow> result" where
  "py_pow x y =
     (if y = 0 then Number 1
      else if x = 0 then (if y < 0 then Raised ZeroDivisionError else Number 0)
      else if x < 0 then
        (if y \<noteq> of_int \<lfloor>y\<rfloor>
         then ComplexNumber (Complex ((- x) powr y * cos (pi * y)) ((- x) powr y * sin (pi * y)))
         else if odd \<lfloor>y\<rfloor> then Number (- ((- x) powr y))
         else Number ((- x) powr y))
      else Number (x powr y))"

text \<open>\<^verbatim>\<open>math.log x\<close>: \<^verbatim>\<open>ValueError\<close> (math domain error) unless \<open>x\<close> is positive.\<close>

definition math_log :: "real \<Rightarrow> result" where
  "math_log x = (if x \<le> 0 then Raised ValueError else Number (ln x))"

text \<open>\<^verbatim>\<open>x / y\<close> on floats and on complex numbers: \<^verbatim>\<open>ZeroDivisionError\<close> when \<open>y\<close> is zero.\<close>

definition py_div :: "real \<Rightarrow> real \<Rightarrow> result" where
  "py_div x y = (if y = 0 then Raised ZeroDivisionError else Number (x / y))"

definition py_cdiv :: "complex \<Rightarrow> complex \<Rightarrow> result" where
  "py_cdiv x y = (if y = 0 then Raised ZeroDivisionError else ComplexNumber (x / y))"

subsection \<open>The validator\<close>

text \<open>
  \<^verbatim>\<open>check_loan_parameters\<close>: four tests in the order of the source, each returning its
  own message; falling off the end returns \<^verbatim>\<open>None\<close>.
\<close>

definition check_loan_parameters :: "real \<Rightarrow> real \<Rightarrow> real \<Rightarrow> string \<Rightarrow> string option" where
  "check_loan_parameters loan_amount interest_rate_year loan_term loan_term_units =
     (if loan_amount = 0 then Some ''Please enter valid loan amount''
      else if interest_rate_year = 0 then Some ''Please enter valid interest rate''
      else if loan_term = 0 then Some ''Please enter valid loan term''
      else if loan_term_units \<noteq> ''months'' \<and> loan_term_units \<noteq> ''years''
        then Some ''Please select 'years' or 'months' for the loan term''
      else None)"

subsection \<open>Monthly payment\<close>

text \<open>
  The \<^verbatim>\<open>if\<close>/\<^verbatim>\<open>elif\<close> that sets \<^verbatim>\<open>number_of_payments\<close> has no \<^verbatim>\<open>else\<close>: with any
  other unit the name would be unbound at its first use.
\<close>

definition number_of_payments :: "real \<Rightarrow> string \<Rightarrow> real option" where
  "number_of_payments loan_term loan_term_units =
     (if loan_term_units = ''years'' then Some (loan_term * 12)
      else if loan_term_units = ''months'' then Some loan_term
      else None)"

text \<open>
  The payment expression
  \<^verbatim>\<open>loan_amount * interest_rate_month / 100 * P / (P - 1)\<close>, with
  \<^verbatim>\<open>P = (1 + interest_rate_month / 100) ** number_of_payments\<close>, evaluated left to right.
\<close>

definition payment_formula :: "real \<Rightarrow> real \<Rightarrow> real \<Rightarrow> result" where
  "payment_formula loan_amount interest_rate_month n =
     (case py_pow (1 + interest_rate_month / 100) n of
        Number p \<Rightarrow> py_div (loan_amount * interest_rate_month / 100 * p) (p - 1)
      | ComplexNumber z \<Rightarrow>
          py_cdiv (of_real (loan_amount * interest_rate_month / 100) * z) (z - 1)
      | other \<Rightarrow> other)"

definition calculate_monthly_payment :: "real \<Rightarrow> real \<Rightarrow> real \<Rightarrow> string \<Rightarrow> result" where
  "calculate_monthly_payment loan_amount interest_rate_year loan_term loan_term_units =
     (case check_loan_parameters loan_amount interest_rate_year loan_term loan_term_units of
        Some param_check \<Rightarrow> Message param_check
      | None \<Rightarrow>
          (let interest_rate_month = interest_rate_year / 12 in
           case number_of_payments loan_term loan_term_units of
             None \<Rightarrow> Raised UnboundLocalError
           | Some n \<Rightarrow> payment_formula loan_amount interest_rate_month n))"

subsection \<open>Time to repay\<close>

text \<open>
  The quotient \<^verbatim>\<open>- math.log(1 - c / (base + additional)) / math.log(1 + i)\<close>. Python
  evaluates the numerator first, so its exceptions win. A \<^verbatim>\<open>str\<close> base payment makes
  \<^verbatim>\<open>base + additional\<close> a \<^verbatim>\<open>TypeError\<close>; a complex one makes the argument of
  \<^verbatim>\<open>math.log\<close> complex, which is a \<^verbatim>\<open>TypeError\<close> too.
\<close>

definition payments_required :: "real \<Rightarrow> real \<Rightarrow> result \<Rightarrow> real \<Rightarrow> result" where
  "payments_required loan_amount interest_rate_month monthly_payment_base monthly_payment_additional =
     (case monthly_payment_base of
        Message s \<Rightarrow> Raised TypeError
      | Raised e \<Rightarrow> Raised e
      | ComplexNumber z \<Rightarrow>
          (if z + of_real monthly_payment_additional = 0 then Raised ZeroDivisionError
           else Raised TypeError)
      | Number b \<Rightarrow>
          (case py_div (interest_rate_month / 100 * loan_amount) (b + monthly_payment_additional) of
             Number q \<Rightarrow>
               (case math_log (1 - q) of
                  Number num \<Rightarrow>
                    (case math_log (1 + interest_rate_month / 100) of
                       Number den \<Rightarrow> py_div (- num) den
                     | other \<Rightarrow> other)
                | other \<Rightarrow> other)
           | other \<Rightarrow> other))"

definition calculate_time_to_repay :: "real \<Rightarrow> real \<Rightarrow> real \<Rightarrow> string \<Rightarrow> real \<Rightarrow> result" where
  "calculate_time_to_repay loan_amount interest_rate_year loan_term loan_term_units
       monthly_payment_additional =
     (case check_loan_parameters loan_amount interest_rate_year loan_term loan_term_units of
        Some param_check \<Rightarrow> Message param_check
      | None \<Rightarrow>
          (let monthly_payment_base =
                 calculate_monthly_payment loan_amount interest_rate_year loan_term loan_term_units;
               interest_rate_month = interest_rate_year / 12
           in payments_required loan_amount interest_rate_month monthly_payment_base
                monthly_payment_additional))"

subsection \<open>Take-home pay\<close>

definition calculate_monthly_takehome :: "real \<Rightarrow> real \<Rightarrow> real \<Rightarrow> result" where
  "calculate_monthly_takehome salary_base effective_tax_rate annual_savings =
     (if salary_base = 0 then Message ''Please enter valid salary''
      else (let salary_takehome = salary_base * (1 - effective_tax_rate / 100) - annual_savings
            in Number (salary_takehome / 12)))"

subsection \<open>Take-home pay net of the loan\<close>

text \<open>
  The form's fields as \<^verbatim>\<open>call_calculate_monthly_takehome\<close> reads them, after
  \<^verbatim>\<open>fill_missing_fields\<close> and the conversions \<^verbatim>\<open>float(...)\<close> and \<^verbatim>\<open>str(...)\<close>.
\<close>

record entries =
  Loan_Amount :: real
  Annual_Interest_Rate :: real
  Loan_Term :: real
  Loan_Term_Units :: string
  Additional_Monthly_Payment :: real
  Salary :: real
  Effective_Tax_Rate :: real
  Annual_Savings_Target :: real

text \<open>
  The callback, up to the value it puts into the field "Monthly Take-home Salary":
  \<open>Number x\<close> stands for the text \<^verbatim>\<open>"{:.2f}".format(x)\<close>, \<open>Message s\<close> for the text
  \<open>s\<close>. The take-home pay is computed first, then the loan payment, unless the loan
  amount is 0; an exception of the loan payment leaves the callback.
\<close>

definition call_calculate_monthly_takehome :: "entries \<Rightarrow> result" where
  "call_calculate_monthly_takehome e =
     (let monthly_takehome =
            calculate_monthly_takehome (Salary e) (Effective_Tax_Rate e) (Annual_Savings_Target e);
          (monthly_payment_base, additional_monthly_payment) =
            (if Loan_Amount e = 0 then (Number 0, 0)
             else (calculate_monthly_payment (Loan_Amount e) (Annual_Interest_Rate e)
                     (Loan_Term e) (Loan_Term_Units e),
                   Additional_Monthly_Payment e))
      in case monthly_payment_base of
           Raised ex \<Rightarrow> Raised ex
         | Message loan_message \<Rightarrow>
             (case monthly_takehome of
                Message salary_message \<Rightarrow> Message salary_message
              | _ \<Rightarrow> Message loan_message)
         | Number b \<Rightarrow>
             (case monthly_takehome of
                Number t \<Rightarrow> Number (t - b - additional_monthly_payment)
              | other \<Rightarrow> other)
         | ComplexNumber z \<Rightarrow>
             (case monthly_takehome of
                Number t \<Rightarrow>
                  ComplexNumber (of_real t - z - of_real additional_monthly_payment)
              | other \<Rightarrow> other))"

subsection \<open>The compound factor\<close>


section \<open>The validator\<close>

lemma check_loan_parameters_None:
  "check_loan_parameters a r t u = None \<longleftrightarrow>
     a \<noteq> 0 \<and> r \<noteq> 0 \<and> t \<noteq> 0 \<and> (u = ''months'' \<or> u = ''years'')"
  by (simp add: check_loan_parameters_def)


text \<open>
  Claim C3. The validator returns a message exactly when the amount is 0, the annual
  rate is 0, the term is 0, or the unit is neither \<^verbatim>\<open>"months"\<close> nor \<^verbatim>\<open>"years"\<close>; on
  every other input, negative amounts, rates and terms included, it returns
  \<^verbatim>\<open>None\<close>.
\<close>

theorem check_loan_parameters_error_iff:
  "((\<exists>m. check_loan_parameters a r t u = Some m) \<longleftrightarrow>
      (a = 0 \<or> r = 0 \<or> t = 0 \<or> u \<notin> {''months'', ''years''})) \<and>
   (check_loan_parameters a r t u = None \<longleftrightarrow>
      \<not> (a = 0 \<or> r = 0 \<or> t = 0 \<or> u \<notin> {''months'', ''years''}))"
  by (simp add: check_loan_parameters_def)

theorem check_loan_parameters_negative_witness:
  "check_loan_parameters (- 100) 5 10 ''years'' = None \<and>
   (\<exists>m. check_loan_parameters 100 5 10 ''weeks'' = Some m)"
  using check_loan_parameters_error_iff [of "- 100" 5 10 "''years''"]
    check_loan_parameters_error_iff [of 100 5 10 "''weeks''"]
  by simp

text \<open>
  Claim C10. The four tests run in the order amount, rate, term, unit, and the
  message returned is the one of the first test that fails: the amount's when the
  amount is 0, whatever the other fields; the rate's when the amount is not 0 and the
  rate is; and so on. The four messages are pairwise different, so the message
  identifies the field.
\<close>

theorem check_loan_parameters_first_failure:
  "(a = 0 \<longrightarrow> check_loan_parameters a r t u = Some ''Please enter valid loan amount'') \<and>
   (a \<noteq> 0 \<and> r = 0 \<longrightarrow>
      check_loan_parameters a r t u = Some ''Please enter valid interest rate'') \<and>
   (a \<noteq> 0 \<and> r \<noteq> 0 \<and> t = 0 \<longrightarrow>
      check_loan_parameters a r t u = Some ''Please enter valid loan term'') \<and>
   (a \<noteq> 0 \<and> r \<noteq> 0 \<and> t \<noteq> 0 \<and> u \<noteq> ''months'' \<and> u \<noteq> ''years'' \<longrightarrow>
      check_loan_parameters a r t u =
        Some ''Please select 'years' or 'months' for the loan term'') \<and>
   distinct [''Please enter valid loan amount'', ''Please enter valid interest rate'',
     ''Please enter valid loan term'', ''Please select 'years' or 'months' for the loan term'']"
  by (simp add: check_loan_parameters_def)

theorem check_loan_parameters_first_failure_witness:
  "check_loan_parameters 0 0 0 ''weeks'' = Some ''Please enter valid loan amount'' \<and>
   check_loan_parameters 5 0 0 ''weeks'' = Some ''Please enter valid interest rate'' \<and>
   check_loan_parameters 5 5 0 ''weeks'' = Some ''Please enter valid loan term'' \<and>
   check_loan_parameters 5 5 5 ''weeks'' =
     Some ''Please select 'years' or 'months' for the loan term''"
  using check_loan_parameters_first_failure [of 0 0 0 "''weeks''"]
    check_loan_parameters_first_failure [of 5 0 0 "''weeks''"]
    check_loan_parameters_first_failure [of 5 5 0 "''weeks''"]
    check_loan_parameters_first_failure [of 5 5 5 "''weeks''"]
  by simp

section \<open>Take-home pay\<close>

text \<open>
  Claim C4, as the spec states it, ends with the example
  \<open>monthlyTakehome(100000, 25, 12000) = 5125.0\<close>. The function returns 5250 there:
  \<open>(100000 * 0.75 - 12000) / 12 = 63000 / 12\<close>.
\<close>

theorem takehome_example_counterexample:
  "calculate_monthly_takehome 100000 25 12000 = Number 5250 \<and>
   calculate_monthly_takehome 100000 25 12000 \<noteq> Number 5125"
  by (simp add: calculate_monthly_takehome_def)

text \<open>
  Claim C4, amended. The take-home function returns a message exactly when the base
  salary is 0; for every other salary, whatever the tax rate and the savings target,
  it returns \<open>(salary * (1 - rate / 100) - savings) / 12\<close>; in particular
  \<open>monthlyTakehome(100000, 25, 12000) = 5250\<close>.
\<close>

theorem calculate_monthly_takehome_value:
  "((\<exists>m. calculate_monthly_takehome s x v = Message m) \<longleftrightarrow> s = 0) \<and>
   (s \<noteq> 0 \<longrightarrow> calculate_monthly_takehome s x v = Number ((s * (1 - x / 100) - v) / 12)) \<and>
   calculate_monthly_takehome 100000 25 12000 = Number 5250"
  by (simp add: calculate_monthly_takehome_def)

theorem calculate_monthly_takehome_value_witness:
  "calculate_monthly_takehome 1200 (- 50) 3000 = Number (- 100) \<and>
   (\<exists>m. calculate_monthly_takehome 0 25 12000 = Message m)"
  using calculate_monthly_takehome_value [of 1200 "- 50" 3000]
    calculate_monthly_takehome_value [of 0 25 12000]
  by simp

section \<open>Python's power\<close>


lemma py_pow_not_Message: "py_pow x y \<noteq> Message m"
  by (simp add: py_pow_def)





section \<open>Monthly payment\<close>

lemma py_div_not_Message: "py_div x y \<noteq> Message m"
  by (simp add: py_div_def)

lemma py_cdiv_not_Message: "py_cdiv x y \<noteq> Message m"
  by (simp add: py_cdiv_def)

lemma payment_formula_not_Message: "payment_formula a i n \<noteq> Message m"
  unfolding payment_formula_def
  by (cases "py_pow (1 + i / 100) n")
    (simp_all add: py_pow_not_Message py_div_not_Message py_cdiv_not_Message)




text \<open>The only messages of the monthly payment are the validator's.\<close>

lemma calculate_monthly_payment_Message:
  "calculate_monthly_payment a r t u = Message m \<longleftrightarrow> check_loan_parameters a r t u = Some m"
proof (cases "check_loan_parameters a r t u")
  case None
  then have "u = ''months'' \<or> u = ''years''"
    by (simp add: check_loan_parameters_None)
  then obtain n where "number_of_payments t u = Some n"
    by (auto simp add: number_of_payments_def)
  with None show ?thesis
    by (simp add: calculate_monthly_payment_def payment_formula_not_Message)
next
  case (Some s)
  then show ?thesis
    by (auto simp add: calculate_monthly_payment_def)
qed




subsection \<open>Positive loans\<close>








section \<open>Time to repay\<close>

lemma calculate_time_to_repay_valid:
  "check_loan_parameters a y t u = None \<Longrightarrow>
   calculate_time_to_repay a y t u x =
     payments_required a (y / 12) (calculate_monthly_payment a y t u) x"
  by (simp add: calculate_time_to_repay_def)

lemma payments_required_Number:
  assumes "b + x \<noteq> 0" and "0 < 1 - i / 100 * a / (b + x)" and "0 < 1 + i / 100" and "i \<noteq> 0"
  shows "payments_required a i (Number b) x =
    Number (- ln (1 - i / 100 * a / (b + x)) / ln (1 + i / 100))"
proof -
  from assms have "ln (1 + i / 100) \<noteq> 0" by simp
  with assms show ?thesis
    by (simp add: payments_required_def py_div_def math_log_def)
qed

lemma payments_required_ValueError:
  assumes "b + x \<noteq> 0" and "1 - i / 100 * a / (b + x) \<le> 0"
  shows "payments_required a i (Number b) x = Raised ValueError"
  using assms by (simp add: payments_required_def py_div_def math_log_def)

text \<open>
  Claim C9. Whenever the monthly payment on the same loan parameters is a message,
  the time to repay is that very message. (Its own call of the validator returns it
  before the monthly payment is computed, so the branch where a \<^verbatim>\<open>str\<close> payment
  would meet \<^verbatim>\<open>+\<close> is never taken.)
\<close>

theorem time_to_repay_propagates_message:
  "calculate_monthly_payment a r t u = Message m \<Longrightarrow>
   calculate_time_to_repay a r t u x = Message m"
  by (simp add: calculate_monthly_payment_Message calculate_time_to_repay_def)

theorem time_to_repay_propagates_message_witness:
  "calculate_monthly_payment 200000 0 30 ''years'' = Message ''Please enter valid interest rate'' \<and>
   calculate_time_to_repay 200000 0 30 ''years'' 200 = Message ''Please enter valid interest rate''"
proof -
  have h: "calculate_monthly_payment 200000 0 30 ''years'' = Message ''Please enter valid interest rate''"
    by (simp add: calculate_monthly_payment_def check_loan_parameters_def)
  from h time_to_repay_propagates_message [OF h, of 200] show ?thesis by simp
qed

subsection \<open>No additional payment\<close>




subsection \<open>Outside the domain of the logarithm\<close>

lemma payments_required_ZeroDivision:
  "b + x = 0 \<Longrightarrow> payments_required a i (Number b) x = Raised ZeroDivisionError"
  by (simp add: payments_required_def py_div_def)

lemma payments_required_rate_ValueError:
  assumes "b + x \<noteq> 0" and "1 + i / 100 \<le> 0"
  shows "payments_required a i (Number b) x = Raised ValueError"
  using assms by (simp add: payments_required_def py_div_def math_log_def)

text \<open>
  Claim C2, as the spec states it, promises an error result whenever the argument of
  the numerator's logarithm is outside \<open>(0, 1)\<close>. On the loan (100, 1200 percent, 1
  month) the base payment is 200. With an additional payment of -150 the argument is
  -1 and \<^verbatim>\<open>math.log\<close> raises \<^verbatim>\<open>ValueError\<close>, which nothing catches; with -300 the
  argument is 2 and the call returns the number -1, no error at all.
\<close>

theorem time_to_repay_domain_counterexample:
  "check_loan_parameters 100 1200 1 ''months'' = None \<and>
   calculate_monthly_payment 100 1200 1 ''months'' = Number 200 \<and>
   1 - 1200 / 12 / 100 * 100 / (200 + (- 150)) = (- 1 :: real) \<and>
   calculate_time_to_repay 100 1200 1 ''months'' (- 150) = Raised ValueError \<and>
   1 - 1200 / 12 / 100 * 100 / (200 + (- 300)) = (2 :: real) \<and>
   calculate_time_to_repay 100 1200 1 ''months'' (- 300) = Number (- 1)"
proof -
  have base: "calculate_monthly_payment 100 1200 1 ''months'' = Number 200"
    by (simp add: calculate_monthly_payment_def check_loan_parameters_def number_of_payments_def
        payment_formula_def py_pow_def py_div_def)
  have "calculate_time_to_repay 100 1200 1 ''months'' (- 150) = Raised ValueError"
    by (simp add: calculate_time_to_repay_def check_loan_parameters_def base
        payments_required_def py_div_def math_log_def)
  moreover have "calculate_time_to_repay 100 1200 1 ''months'' (- 300) = Number (- 1)"
    by (simp add: calculate_time_to_repay_def check_loan_parameters_def base
        payments_required_def py_div_def math_log_def)
  moreover have "check_loan_parameters 100 1200 1 ''months'' = None"
    by (simp add: check_loan_parameters_def)
  ultimately show ?thesis using base by simp
qed

text \<open>
  Claim C2, amended. On an input the validator accepts and whose base payment is a
  number \<open>b\<close>, with \<open>arg = 1 - (r / 100 * amount / (b + extra))\<close> and
  \<open>r = rate / 12\<close>: the call raises \<^verbatim>\<open>ZeroDivisionError\<close> when \<open>b + extra = 0\<close>; it
  raises \<^verbatim>\<open>ValueError\<close> when \<open>arg \<le> 0\<close>; and when \<open>arg \<ge> 1\<close> it returns the number
  \<open>- ln arg / ln (1 + r / 100)\<close> if \<open>1 + r / 100\<close> is positive and raises
  \<^verbatim>\<open>ValueError\<close> otherwise. The exceptions leave the call: outside \<open>(0, 1)\<close> the
  result is never an error message.
\<close>

theorem time_to_repay_outside_domain:
  assumes "check_loan_parameters a y t u = None"
    and "calculate_monthly_payment a y t u = Number b"
  shows "(b + x = 0 \<longrightarrow> calculate_time_to_repay a y t u x = Raised ZeroDivisionError) \<and>
    (b + x \<noteq> 0 \<and> 1 - y / 12 / 100 * a / (b + x) \<le> 0 \<longrightarrow>
       calculate_time_to_repay a y t u x = Raised ValueError) \<and>
    (b + x \<noteq> 0 \<and> 1 \<le> 1 - y / 12 / 100 * a / (b + x) \<and> 1 + y / 12 / 100 \<le> 0 \<longrightarrow>
       calculate_time_to_repay a y t u x = Raised ValueError) \<and>
    (b + x \<noteq> 0 \<and> 1 \<le> 1 - y / 12 / 100 * a / (b + x) \<and> 0 < 1 + y / 12 / 100 \<longrightarrow>
       calculate_time_to_repay a y t u x =
         Number (- ln (1 - y / 12 / 100 * a / (b + x)) / ln (1 + y / 12 / 100)))"
proof -
  from assms have eq: "calculate_time_to_repay a y t u x = payments_required a (y / 12) (Number b) x"
    by (simp add: calculate_time_to_repay_valid)
  from assms(1) have y: "y / 12 \<noteq> 0" by (simp add: check_loan_parameters_None)
  have 1: "calculate_time_to_repay a y t u x = Raised ZeroDivisionError" if "b + x = 0"
    using that by (simp add: eq payments_required_ZeroDivision)
  have 2: "calculate_time_to_repay a y t u x = Raised ValueError"
    if "b + x \<noteq> 0" "1 - y / 12 / 100 * a / (b + x) \<le> 0"
    using that by (simp add: eq payments_required_ValueError)
  have 3: "calculate_time_to_repay a y t u x = Raised ValueError"
    if "b + x \<noteq> 0" "1 + y / 12 / 100 \<le> 0"
    using that by (simp add: eq payments_required_rate_ValueError)
  have 4: "calculate_time_to_repay a y t u x =
      Number (- ln (1 - y / 12 / 100 * a / (b + x)) / ln (1 + y / 12 / 100))"
    if "b + x \<noteq> 0" "1 \<le> 1 - y / 12 / 100 * a / (b + x)" "0 < 1 + y / 12 / 100"
    unfolding eq using that y by (intro payments_required_Number) simp_all
  from 1 2 3 4 show ?thesis by (intro conjI impI) simp_all
qed

theorem time_to_repay_outside_domain_witness:
  "calculate_time_to_repay 100 1200 1 ''months'' (- 150) = Raised ValueError \<and>
   calculate_time_to_repay 100 1200 1 ''months'' (- 300) = Number (- 1) \<and>
   calculate_time_to_repay 100 1200 1 ''months'' (- 200) = Raised ZeroDivisionError"
proof -
  have c: "check_loan_parameters 100 1200 1 ''months'' = None"
    by (simp add: check_loan_parameters_def)
  have base: "calculate_monthly_payment 100 1200 1 ''months'' = Number 200"
    by (simp add: calculate_monthly_payment_def check_loan_parameters_def number_of_payments_def
        payment_formula_def py_pow_def py_div_def)
  from time_to_repay_outside_domain [OF c base, of "- 150"]
  have "calculate_time_to_repay 100 1200 1 ''months'' (- 150) = Raised ValueError" by simp
  moreover from time_to_repay_outside_domain [OF c base, of "- 300"]
  have "calculate_time_to_repay 100 1200 1 ''months'' (- 300) = Number (- 1)" by simp
  moreover from time_to_repay_outside_domain [OF c base, of "- 200"]
  have "calculate_time_to_repay 100 1200 1 ''months'' (- 200) = Raised ZeroDivisionError" by simp
  ultimately show ?thesis by simp
qed

subsection \<open>Additional payments\<close>






section \<open>Take-home pay net of the loan\<close>

lemma net_zero_loan_not_loan_message:
  "Loan_Amount e = 0 \<Longrightarrow>
   call_calculate_monthly_takehome e \<noteq> Message ''Please enter valid loan amount''"
  by (simp add: call_calculate_monthly_takehome_def calculate_monthly_takehome_def Let_def)

lemma net_zero_loan:
  assumes "Loan_Amount e = 0"
  shows "call_calculate_monthly_takehome e =
    (case calculate_monthly_takehome (Salary e) (Effective_Tax_Rate e) (Annual_Savings_Target e) of
       Number k \<Rightarrow> Number (k - 0 - 0) | other \<Rightarrow> other)"
  using assms by (simp add: call_calculate_monthly_takehome_def Let_def)

text \<open>
  Claim C5. When the loan amount is 0, the value shown is the take-home pay minus 0
  minus 0; it is never the validator's loan-amount message; and it is the same
  whatever the rate, the term, the unit and the additional payment are, so the
  monthly payment plays no part in it. When the loan amount is not 0 and both the
  take-home pay and the monthly payment are numbers, the value shown is take-home pay
  minus base payment minus additional payment.
\<close>

theorem net_affordability:
  "(Loan_Amount e = 0 \<longrightarrow>
      (calculate_monthly_takehome (Salary e) (Effective_Tax_Rate e) (Annual_Savings_Target e) =
         Number takehome \<longrightarrow>
       call_calculate_monthly_takehome e = Number (takehome - 0 - 0)) \<and>
      call_calculate_monthly_takehome e \<noteq> Message ''Please enter valid loan amount'' \<and>
      call_calculate_monthly_takehome
        (e\<lparr>Annual_Interest_Rate := r, Loan_Term := t, Loan_Term_Units := u,
            Additional_Monthly_Payment := x\<rparr>) =
        call_calculate_monthly_takehome e) \<and>
   (Loan_Amount e \<noteq> 0 \<longrightarrow>
      calculate_monthly_takehome (Salary e) (Effective_Tax_Rate e) (Annual_Savings_Target e) =
        Number takehome \<longrightarrow>
      calculate_monthly_payment (Loan_Amount e) (Annual_Interest_Rate e) (Loan_Term e)
        (Loan_Term_Units e) = Number basePayment \<longrightarrow>
      call_calculate_monthly_takehome e =
        Number (takehome - basePayment - Additional_Monthly_Payment e))"
proof (cases "Loan_Amount e = 0")
  case True
  let ?e' = "e\<lparr>Annual_Interest_Rate := r, Loan_Term := t, Loan_Term_Units := u,
      Additional_Monthly_Payment := x\<rparr>"
  note z = net_zero_loan [OF True]
  from True have "Loan_Amount ?e' = 0" by simp
  then have z': "call_calculate_monthly_takehome ?e' =
      (case calculate_monthly_takehome (Salary ?e') (Effective_Tax_Rate ?e') (Annual_Savings_Target ?e') of
         Number k \<Rightarrow> Number (k - 0 - 0) | other \<Rightarrow> other)"
    by (rule net_zero_loan)
  have 1: "call_calculate_monthly_takehome e = Number (takehome - 0 - 0)"
    if "calculate_monthly_takehome (Salary e) (Effective_Tax_Rate e) (Annual_Savings_Target e) =
      Number takehome"
    using that by (simp add: z)
  have 2: "call_calculate_monthly_takehome e \<noteq> Message ''Please enter valid loan amount''"
    using True by (rule net_zero_loan_not_loan_message)
  have 3: "call_calculate_monthly_takehome ?e' = call_calculate_monthly_takehome e"
    by (simp add: z z')
  from True 1 2 3 show ?thesis by simp
next
  case False
  then show ?thesis
    by (simp add: call_calculate_monthly_takehome_def Let_def)
qed

theorem net_affordability_witness:
  "call_calculate_monthly_takehome
     \<lparr>Loan_Amount = 0, Annual_Interest_Rate = 0, Loan_Term = 0, Loan_Term_Units = ''years'',
      Additional_Monthly_Payment = 500, Salary = 100000, Effective_Tax_Rate = 25,
      Annual_Savings_Target = 12000\<rparr> = Number 5250 \<and>
   call_calculate_monthly_takehome
     \<lparr>Loan_Amount = 100, Annual_Interest_Rate = 1200, Loan_Term = 1, Loan_Term_Units = ''months'',
      Additional_Monthly_Payment = 50, Salary = 100000, Effective_Tax_Rate = 25,
      Annual_Savings_Target = 12000\<rparr> = Number 5000"
proof -
  let ?e0 = "\<lparr>Loan_Amount = 0, Annual_Interest_Rate = 0, Loan_Term = 0, Loan_Term_Units = ''years'',
      Additional_Monthly_Payment = 500, Salary = 100000, Effective_Tax_Rate = 25,
      Annual_Savings_Target = 12000\<rparr>"
  let ?e1 = "\<lparr>Loan_Amount = 100, Annual_Interest_Rate = 1200, Loan_Term = 1, Loan_Term_Units = ''months'',
      Additional_Monthly_Payment = 50, Salary = 100000, Effective_Tax_Rate = 25,
      Annual_Savings_Target = 12000\<rparr>"
  have t: "calculate_monthly_takehome 100000 25 12000 = Number 5250"
    by (simp add: calculate_monthly_takehome_def)
  have base: "calculate_monthly_payment 100 1200 1 ''months'' = Number 200"
    by (simp add: calculate_monthly_payment_def check_loan_parameters_def number_of_payments_def
        payment_formula_def py_pow_def py_div_def)
  from t net_affordability [of ?e0 5250]
  have "call_calculate_monthly_takehome ?e0 = Number 5250" by simp
  moreover from t base net_affordability [of ?e1 5250 r t u x 200]
  have "call_calculate_monthly_takehome ?e1 = Number 5000" by simp
  ultimately show ?thesis by simp
qed

end
